theory Spec2Isabelle
  imports Complex_Main "HOL-Library.AList"
begin

section \<open>Text metrics (src/js/utilities.js and the later revision of the same module)\<close>

text \<open>
  The word counter runs a regular expression with the flags \<^verbatim>\<open>g\<close> and \<^verbatim>\<open>u\<close>, so the
  subject string is read code point by code point. A subject string is therefore a list of
  code points (natural numbers).

  The character class \<^verbatim>\<open>\p{Extended_Pictographic}\<close> is a table of the Unicode Character
  Database, which is not part of the repository: every function below takes that property
  as its first argument \<open>ep\<close>.
\<close>

type_synonym codepoints = "nat list"

text \<open>The class \<^verbatim>\<open>[\n\s]\<close>: ECMAScript's WhiteSpace and LineTerminator code points.\<close>

definition js_space :: "nat \<Rightarrow> bool" where
  "js_space c \<longleftrightarrow>
     c = 0x09 \<or> c = 0x0A \<or> c = 0x0B \<or> c = 0x0C \<or> c = 0x0D \<or> c = 0x20 \<or> c = 0xA0 \<or>
     c = 0x1680 \<or> (0x2000 \<le> c \<and> c \<le> 0x200A) \<or> c = 0x2028 \<or> c = 0x2029 \<or>
     c = 0x202F \<or> c = 0x205F \<or> c = 0x3000 \<or> c = 0xFEFF"

text \<open>
  The class
  \<^verbatim>\<open>[a-zA-Z0-9\u00C0-\u017F\p{Extended_Pictographic}\u{1F3FB}-\u{1F3FF}\u{1F9B0}-\u{1F9B3}]\<close>.
\<close>

definition word_char :: "(nat \<Rightarrow> bool) \<Rightarrow> nat \<Rightarrow> bool" where
  "word_char ep c \<longleftrightarrow>
     (0x61 \<le> c \<and> c \<le> 0x7A) \<or> (0x41 \<le> c \<and> c \<le> 0x5A) \<or> (0x30 \<le> c \<and> c \<le> 0x39) \<or>
     (0xC0 \<le> c \<and> c \<le> 0x17F) \<or> ep c \<or>
     (0x1F3FB \<le> c \<and> c \<le> 0x1F3FF) \<or> (0x1F9B0 \<le> c \<and> c \<le> 0x1F9B3)"

text \<open>
  One attempt of the pattern \<^verbatim>\<open>[\n\s]{0,}W+[\n\s]{0,}\<close> at the head of \<open>xs\<close>, with
  the backtracking of the engine: the leading quantifier is greedy and gives characters
  back one at a time until a word character follows; the two remaining quantifiers are
  greedy and cannot fail. The result is the text left after the match.
\<close>

definition starts_word :: "(nat \<Rightarrow> bool) \<Rightarrow> codepoints \<Rightarrow> bool" where
  "starts_word ep xs = (case xs of [] \<Rightarrow> False | c # _ \<Rightarrow> word_char ep c)"

definition match_here :: "(nat \<Rightarrow> bool) \<Rightarrow> codepoints \<Rightarrow> codepoints option" where
  "match_here ep xs =
     (case find (\<lambda>k. starts_word ep (drop k xs)) (rev [0 ..< Suc (length (takeWhile js_space xs))]) of
        None \<Rightarrow> None
      | Some k \<Rightarrow> Some (dropWhile js_space (dropWhile (word_char ep) (drop k xs))))"

lemma match_here_shorter:
  assumes "match_here ep xs = Some r"
  shows "length r < length xs"
proof -
  from assms obtain k
    where f: "find (\<lambda>k. starts_word ep (drop k xs))
                (rev [0 ..< Suc (length (takeWhile js_space xs))]) = Some k"
      and r: "r = dropWhile js_space (dropWhile (word_char ep) (drop k xs))"
    unfolding match_here_def by (auto split: option.splits)
  from f have k: "starts_word ep (drop k xs)"
    unfolding find_Some_iff by blast
  from k obtain c cs where d: "drop k xs = c # cs" and w: "word_char ep c"
    by (auto simp: starts_word_def split: list.splits)
  have "length r \<le> length (dropWhile (word_char ep) (drop k xs))"
    unfolding r by (rule length_dropWhile_le)
  also have "\<dots> = length (dropWhile (word_char ep) cs)"
    using d w by simp
  also have "\<dots> \<le> length cs"
    by (rule length_dropWhile_le)
  also have "\<dots> < length (drop k xs)"
    using d by simp
  also have "\<dots> \<le> length xs"
    by simp
  finally show ?thesis .
qed

text \<open>
  \<^verbatim>\<open>targetString.match(regex)\<close> with the global flag: the matches are found from left to
  right, each search starting where the previous match ended and moving one code point on
  where no match starts. Only their number is used.
\<close>

function count_matches :: "(nat \<Rightarrow> bool) \<Rightarrow> codepoints \<Rightarrow> nat" where
  "count_matches ep xs =
     (if xs = [] then 0
      else case match_here ep xs of
             Some r \<Rightarrow> Suc (count_matches ep r)
           | None \<Rightarrow> count_matches ep (tl xs))"
  by pat_completeness auto
termination
  by (relation "measure (\<lambda>(ep, xs). length xs)") (auto dest: match_here_shorter)

declare count_matches.simps [simp del]

text \<open>\<^verbatim>\<open>countWords\<close>: \<^verbatim>\<open>(targetString.match(regex) || '').length\<close>.\<close>

definition countWords :: "(nat \<Rightarrow> bool) \<Rightarrow> codepoints \<Rightarrow> nat" where
  "countWords ep targetString = count_matches ep targetString"

text \<open>
  \<^verbatim>\<open>getReadTime\<close> of src/js/utilities.js returns the number of seconds,
  \<^verbatim>\<open>Math.ceil(wordNumber / (283 / 60))\<close>. The quotient is taken in the reals; the source
  computes it in double precision, which agrees with the exact value wherever the exact
  quotient is not within rounding distance of an integer.
\<close>

definition getReadTime :: "(nat \<Rightarrow> bool) \<Rightarrow> codepoints \<Rightarrow> int" where
  "getReadTime ep targetString =
     (let wordNumber = countWords ep targetString
      in \<lceil>real wordNumber / (283 / 60)\<rceil>)"

text \<open>
  The later revision (src/unnamed/part_000) computes
  \<^verbatim>\<open>Math.ceil(wordNumber / (238 / 60))\<close> seconds and formats them.
\<close>

definition getReadTime_seconds2 :: "(nat \<Rightarrow> bool) \<Rightarrow> codepoints \<Rightarrow> int" where
  "getReadTime_seconds2 ep targetString =
     (let wordNumber = countWords ep targetString
      in \<lceil>real wordNumber / (238 / 60)\<rceil>)"

section \<open>Identifiers (generateID)\<close>

text \<open>
  A non-negative integer converted to a string by JavaScript's \<^verbatim>\<open>+\<close> on a string and a
  number is its decimal expansion (the values here, UNIX times and note positions, are far
  below the bound where the exponent notation starts).
\<close>

definition digit_char :: "nat \<Rightarrow> char" where
  "digit_char d = char_of (48 + d)"

fun num_str :: "nat \<Rightarrow> string" where
  "num_str n = (if n < 10 then [digit_char n] else num_str (n div 10) @ [digit_char (n mod 10)])"

declare num_str.simps [simp del]

text \<open>\<^verbatim>\<open>generateID\<close>: \<^verbatim>\<open>frontTag + time + backTag\<close>.\<close>

definition generateID :: "string \<Rightarrow> string \<Rightarrow> nat \<Rightarrow> string" where
  "generateID frontTag backTag time = frontTag @ num_str time @ backTag"

text \<open>
  The formatted result of \<^verbatim>\<open>getReadTime\<close> in the later revision:
  \<^verbatim>\<open>minutes > 0 ? minutes + 'm ' + remainingSeconds + 's' : remainingSeconds + 's'\<close>.
\<close>

definition getReadTime2 :: "(nat \<Rightarrow> bool) \<Rightarrow> codepoints \<Rightarrow> string" where
  "getReadTime2 ep targetString =
     (let seconds = nat (getReadTime_seconds2 ep targetString);
          minutes = seconds div 60;
          remainingSeconds = seconds mod 60
      in if minutes > 0 then num_str minutes @ ''m '' @ num_str remainingSeconds @ ''s''
         else num_str remainingSeconds @ ''s'')"

section \<open>The fallback-safe mutator (dataFallbackMode)\<close>

text \<open>
  An action is a callback that changes some world \<open>'w\<close>. When it throws, the changes it
  made before the throw stay: a failure is \<open>Inl (error, world at the throw)\<close>, a
  normal return is \<open>Inr world\<close>. The error is represented by the text JavaScript's
  string conversion gives it.

  What \<^verbatim>\<open>dataFallbackMode\<close> itself reports is returned as a list, in the order of
  the calls.
\<close>

datatype report = Alert string | ConsoleError string string

type_synonym ('d, 'w) action = "'d \<Rightarrow> 'w \<Rightarrow> (string \<times> 'w) + 'w"

text \<open>
  src/js/utilities.js: \<^verbatim>\<open>try { action(newData) } catch (error) { action(oldData); alert(...) }\<close>.
  An exception of the second call leaves the function before the alert.
\<close>

definition dataFallbackMode ::
  "'d \<Rightarrow> 'd \<Rightarrow> ('d, 'w) action \<Rightarrow> 'w \<Rightarrow> ((string \<times> 'w) + 'w) \<times> report list" where
  "dataFallbackMode oldData newData action w =
     (case action newData w of
        Inr w' \<Rightarrow> (Inr w', [])
      | Inl (error, w1) \<Rightarrow>
          (case action oldData w1 of
             Inl (error2, w2) \<Rightarrow> (Inl (error2, w2), [])
           | Inr w2 \<Rightarrow>
               (Inr w2, [Alert (''The action could not be performed.'' @ [CHR 0x0A] @ error)])))"

text \<open>
  src/unnamed/part_000:
  \<^verbatim>\<open>try { action(newData) } catch (error) { console.error('Action failed, reverting.', error); action(oldData) }\<close>.
\<close>

definition dataFallbackMode2 ::
  "'d \<Rightarrow> 'd \<Rightarrow> ('d, 'w) action \<Rightarrow> 'w \<Rightarrow> ((string \<times> 'w) + 'w) \<times> report list" where
  "dataFallbackMode2 oldData newData action w =
     (case action newData w of
        Inr w' \<Rightarrow> (Inr w', [])
      | Inl (error, w1) \<Rightarrow>
          (case action oldData w1 of
             Inl (error2, w2) \<Rightarrow> (Inl (error2, w2), [ConsoleError ''Action failed, reverting.'' error])
           | Inr w2 \<Rightarrow> (Inr w2, [ConsoleError ''Action failed, reverting.'' error])))"

section \<open>The notepad (src/js/notepad.js)\<close>

subsection \<open>Values, exceptions and the notes index\<close>

text \<open>
  Strings of the notepad (ids, titles, texts, colours) are compared, concatenated and
  matched against ASCII patterns; they are modelled as \<^typ>\<open>string\<close>.

  The record \<open>Notepad\<close> below describes a notepad whose \<^verbatim>\<open>.notepad\<close> element is in the
  document. A method that throws leaves the changes it has made so far, so an outcome
  carries the state of the notepad. A call that takes the \<^verbatim>\<open>.notepad\<close> element out of
  the document (it removes that element or the entry point) ends in \<open>Detached\<close>, with the
  exception it ended with, if any; no call is modelled on what is left.
\<close>

datatype js_error = TypeError | NotFoundError | InvalidCharacterError | HierarchyRequestError

datatype 's outcome = Done 's | Thrown js_error 's | Detached "js_error option" 's

fun state_of :: "'s outcome \<Rightarrow> 's" where
  "state_of (Done s) = s"
| "state_of (Thrown e s) = s"
| "state_of (Detached e s) = s"

text \<open>
  \<^verbatim>\<open>#notesContainerIndex\<close> is a \<^verbatim>\<open>Map\<close> from numbers to note ids. A \<^verbatim>\<open>Map\<close> keeps its
  entries in insertion order, \<^verbatim>\<open>set\<close> on a key that is present replaces the value in
  place and \<^verbatim>\<open>set\<close> on a new key appends an entry: an association list with
  \<^const>\<open>AList.update\<close>. A stored value can be \<^verbatim>\<open>undefined\<close> (\<open>None\<close>), which is also what
  \<^verbatim>\<open>get\<close> returns for a key that is absent.
\<close>

type_synonym js_map = "(int \<times> string option) list"

definition map_get :: "js_map \<Rightarrow> int \<Rightarrow> string option" where
  "map_get m k = (case map_of m k of None \<Rightarrow> None | Some v \<Rightarrow> v)"

definition map_set :: "js_map \<Rightarrow> int \<Rightarrow> string option \<Rightarrow> js_map" where
  "map_set m k v = AList.update k v m"

definition map_keys :: "js_map \<Rightarrow> int list" where
  "map_keys m = map fst m"

text \<open>Truthiness of a value that is a string or \<^verbatim>\<open>undefined\<close>, and \<^verbatim>\<open>v || d\<close>.\<close>

definition truthy :: "string option \<Rightarrow> bool" where
  "truthy v = (case v of None \<Rightarrow> False | Some s \<Rightarrow> s \<noteq> [])"


text \<open>The conversion of such a value to a string, as an argument of a DOM method.\<close>

definition js_string :: "string option \<Rightarrow> string" where
  "js_string v = (case v of None \<Rightarrow> ''undefined'' | Some s \<Rightarrow> s)"

text \<open>
  A property of the object given to \<^verbatim>\<open>newNote\<close>, which comes from a parsed file or from
  a caller: it is missing, a string, or another value (\<^verbatim>\<open>null\<close>, a boolean, a number,
  an array, an object), of which its truthiness and its conversion to a string are kept.
\<close>

datatype property = Missing | Text string | Other bool string

definition prop_truthy :: "property \<Rightarrow> bool" where
  "prop_truthy v = (case v of Missing \<Rightarrow> False | Text s \<Rightarrow> s \<noteq> [] | Other t s \<Rightarrow> t)"

definition prop_string :: "property \<Rightarrow> string" where
  "prop_string v = (case v of Missing \<Rightarrow> ''undefined'' | Text s \<Rightarrow> s | Other t s \<Rightarrow> s)"

subsection \<open>The elements\<close>

text \<open>
  The attribute \<^verbatim>\<open>data-note-index\<close> of an element is absent, the string
  \<^verbatim>\<open>undefined\<close> (written by \<^verbatim>\<open>moveNote\<close>) or the decimal form of a number.
\<close>

datatype index_attr = NoAttr | AttrUndefined | AttrNum int

text \<open>
  A note element with what the methods below read and write: its id, the text of
  \<^verbatim>\<open>.note-title\<close> and \<^verbatim>\<open>.note-text\<close>, \<^verbatim>\<open>data-accent-color\<close> of the title container,
  \<^verbatim>\<open>data-note-index\<close>, and \<^verbatim>\<open>value\<close>, \<^verbatim>\<open>defaultValue\<close> and \<^verbatim>\<open>max\<close> of the
  \<^verbatim>\<open>.note-index\<close> input. The counters, the controls and the styles are left out.
\<close>

record note_element =
  elem_id :: string
  note_title :: string
  note_text :: string
  accent_color :: string
  data_note_index :: index_attr
  input_value :: "int option"
  input_default :: "int option"
  input_max :: int

record note_properties =
  np_id :: property
  np_title :: property
  np_content :: property
  np_accentColor :: property

record notepad_record =
  nr_title :: string
  nr_id :: string
  nr_created :: nat
  nr_lastUpdate :: nat
  nr_notes :: "note_properties list"

text \<open>
  The open notepad and the elements of the document that carry an id. These are the
  entry point (an element of the page, whose id is a parameter; the empty string when it
  has none), the \<^verbatim>\<open>.notepad\<close> element in it, and the notes, the children of the notes
  container, in document order; the script gives an id to no other element, and the page
  is taken to hold no further element with an id. \<^verbatim>\<open>data-note-index\<close> of the entry
  point and of the \<^verbatim>\<open>.notepad\<close> element is kept, since the methods write and read it
  once a lookup by id returns one of the two. The other fields are the timestamps of the
  \<^verbatim>\<open>.notepad\<close> element, the text of the header, the notes index and the list of accent
  colours.
\<close>

record Notepad =
  entryPoint_id :: string
  entryPoint_index :: index_attr
  notepad_id :: string
  notepad_index :: index_attr
  notepadCreated :: nat
  notepadLastUpdate :: nat
  header :: string
  notesContainer :: "note_element list"
  notesContainerIndex :: js_map
  accentColors :: "string list"

definition default_accentColors :: "string list" where
  "default_accentColors =
     [[], ''#fde6e6'', ''#ebf2f9'', ''#fefbe6'', ''#feddc9'', ''#e5f4da'', ''#f2eef9'']"

definition default_notepadTitle :: string where
  "default_notepadTitle = ''New notepad''"

definition default_noteTitle :: string where
  "default_noteTitle = ''New note''"

subsection \<open>Looking elements up\<close>

fun first_index :: "('a \<Rightarrow> bool) \<Rightarrow> 'a list \<Rightarrow> nat option" where
  "first_index P [] = None"
| "first_index P (x # xs) = (if P x then Some 0 else map_option Suc (first_index P xs))"

text \<open>An element found by its id: the entry point, the \<^verbatim>\<open>.notepad\<close> element or a note.\<close>

datatype element = EntryPoint | NotepadElement | Note nat

text \<open>
  \<^verbatim>\<open>document.getElementById\<close>: the first element in document order with the id; \<open>None\<close>
  is \<^verbatim>\<open>null\<close>. The entry point comes before the \<^verbatim>\<open>.notepad\<close> element, which comes
  before the notes. The empty string is the id of no element.
\<close>

definition getElementById :: "Notepad \<Rightarrow> string \<Rightarrow> element option" where
  "getElementById s i =
     (if i = [] then None
      else if entryPoint_id s = i then Some EntryPoint
      else if notepad_id s = i then Some NotepadElement
      else map_option Note (first_index (\<lambda>e. elem_id e = i) (notesContainer s)))"

text \<open>\<^verbatim>\<open>querySelector('[data-note-index="' + n + '"]')\<close> on the notes container.\<close>

definition querySelector_index :: "note_element list \<Rightarrow> int \<Rightarrow> nat option" where
  "querySelector_index els n = first_index (\<lambda>e. data_note_index e = AttrNum n) els"

text \<open>
  \<^verbatim>\<open>getAttribute('data-note-index')\<close> on an element that was found, and
  \<^verbatim>\<open>dataset.noteIndex = v\<close> on the entry point or the \<^verbatim>\<open>.notepad\<close> element.
\<close>

definition index_attr_of :: "Notepad \<Rightarrow> element \<Rightarrow> index_attr" where
  "index_attr_of s el =
     (case el of
        EntryPoint \<Rightarrow> entryPoint_index s
      | NotepadElement \<Rightarrow> notepad_index s
      | Note i \<Rightarrow> data_note_index (notesContainer s ! i))"

definition set_outer_index :: "Notepad \<Rightarrow> element \<Rightarrow> index_attr \<Rightarrow> Notepad" where
  "set_outer_index s el v =
     (case el of
        EntryPoint \<Rightarrow> s\<lparr>entryPoint_index := v\<rparr>
      | NotepadElement \<Rightarrow> s\<lparr>notepad_index := v\<rparr>
      | Note i \<Rightarrow> s)"

definition remove_nth :: "nat \<Rightarrow> 'a list \<Rightarrow> 'a list" where
  "remove_nth i xs = take i xs @ drop (Suc i) xs"

definition insert_at :: "nat \<Rightarrow> 'a \<Rightarrow> 'a list \<Rightarrow> 'a list" where
  "insert_at i x xs = take i xs @ x # drop i xs"

subsection \<open>Creating and indexing notes\<close>

text \<open>
  \<^verbatim>\<open>#createNote\<close>: a new element without \<^verbatim>\<open>data-note-index\<close>, with an empty
  \<^verbatim>\<open>.note-index\<close> input whose \<^verbatim>\<open>max\<close> is the given index. The dialog of the note is
  given the class \<^verbatim>\<open>'delete-' + noteID\<close>: \<^verbatim>\<open>classList.add\<close> throws an
  InvalidCharacterError when that token holds ASCII white space.
\<close>

definition ascii_whitespace :: "char \<Rightarrow> bool" where
  "ascii_whitespace c \<longleftrightarrow>
     (let n = (of_char c :: nat) in n = 0x09 \<or> n = 0x0A \<or> n = 0x0C \<or> n = 0x0D \<or> n = 0x20)"

definition createNote ::
  "string \<Rightarrow> string \<Rightarrow> string \<Rightarrow> string \<Rightarrow> int \<Rightarrow> js_error + note_element" where
  "createNote noteID noteTitle noteText noteAccentColor noteIndex =
     (if list_ex ascii_whitespace noteID then Inl InvalidCharacterError
      else Inr \<lparr>elem_id = noteID, note_title = noteTitle, note_text = noteText,
                accent_color = noteAccentColor, data_note_index = NoAttr,
                input_value = None, input_default = None, input_max = noteIndex\<rparr>)"

text \<open>
  \<^verbatim>\<open>#indexNotes\<close>: for every entry of the index, in the order of the \<^verbatim>\<open>Map\<close>, the
  element found by \<^verbatim>\<open>document.getElementById(this.#notesContainerIndex.get(index))\<close>
  gets the position written to \<^verbatim>\<open>data-note-index\<close>, and the input found by
  \<^verbatim>\<open>note.querySelector('.note-index')\<close> gets the position and the size. For a note
  that is its own input. For the entry point and the \<^verbatim>\<open>.notepad\<close> element it is the
  input of the first note of the container (the elements before the notes container
  hold no element of the class \<^verbatim>\<open>note-index\<close>), and \<^verbatim>\<open>null\<close> in an empty container.
  Where no element or no input is found, a TypeError is thrown and the loop stops there.
\<close>

fun indexNotes_loop :: "int list \<Rightarrow> Notepad \<Rightarrow> Notepad outcome" where
  "indexNotes_loop [] s = Done s"
| "indexNotes_loop (index # rest) s =
     (case getElementById s (js_string (map_get (notesContainerIndex s) index)) of
        None \<Rightarrow> Thrown TypeError s
      | Some (Note i) \<Rightarrow>
          indexNotes_loop rest
            (s\<lparr>notesContainer := (notesContainer s)
                 [i := (notesContainer s ! i)
                    \<lparr>data_note_index := AttrNum index,
                     input_value := Some index,
                     input_default := Some index,
                     input_max := int (length (notesContainerIndex s))\<rparr>]\<rparr>)
      | Some outer \<Rightarrow>
          (if notesContainer s = [] then Thrown TypeError (set_outer_index s outer (AttrNum index))
           else
             indexNotes_loop rest
               ((set_outer_index s outer (AttrNum index))
                  \<lparr>notesContainer := (notesContainer s)
                     [0 := (notesContainer s ! 0)
                        \<lparr>input_value := Some index,
                         input_default := Some index,
                         input_max := int (length (notesContainerIndex s))\<rparr>]\<rparr>)))"

definition indexNotes :: "Notepad \<Rightarrow> Notepad outcome" where
  "indexNotes s = indexNotes_loop (map_keys (notesContainerIndex s)) s"

text \<open>
  \<^verbatim>\<open>#indexNotes\<close> once the \<^verbatim>\<open>.notepad\<close> element is out of the document: no note is
  found by its id any more. The entry point, unless it has been removed itself, is still
  found, but holds no \<^verbatim>\<open>.note-index\<close> input. The loop throws at the first entry.
\<close>

definition indexNotes_detached :: "bool \<Rightarrow> Notepad \<Rightarrow> Notepad outcome" where
  "indexNotes_detached entryPoint_removed s =
     (case map_keys (notesContainerIndex s) of
        [] \<Rightarrow> Detached None s
      | index # rest \<Rightarrow>
          (if \<not> entryPoint_removed
              \<and> js_string (map_get (notesContainerIndex s) index) \<noteq> []
              \<and> js_string (map_get (notesContainerIndex s) index) = entryPoint_id s
           then Detached (Some TypeError) (s\<lparr>entryPoint_index := AttrNum index\<rparr>)
           else Detached (Some TypeError) s))"

text \<open>
  The pattern \<^verbatim>\<open>/^#([A-Fa-f0-9]{6}|[A-Fa-f0-9]{3})$/\<close> (no flags: \<^verbatim>\<open>$\<close> is the end of the
  string), and \<^verbatim>\<open>toLowerCase\<close>, which \<^verbatim>\<open>newNote\<close> applies to strings that match the
  pattern only, so that its effect on ASCII letters is all that is needed.
\<close>

definition hex_digit :: "char \<Rightarrow> bool" where
  "hex_digit c \<longleftrightarrow>
     (let n = (of_char c :: nat)
      in (0x41 \<le> n \<and> n \<le> 0x46) \<or> (0x61 \<le> n \<and> n \<le> 0x66) \<or> (0x30 \<le> n \<and> n \<le> 0x39))"

definition hexColorRegex_test :: "string \<Rightarrow> bool" where
  "hexColorRegex_test s =
     (case s of
        [] \<Rightarrow> False
      | c # ds \<Rightarrow> c = CHR ''#'' \<and> (length ds = 6 \<or> length ds = 3) \<and> list_all hex_digit ds)"

definition lower_char :: "char \<Rightarrow> char" where
  "lower_char c =
     (let n = (of_char c :: nat)
      in if 0x41 \<le> n \<and> n \<le> 0x5A then char_of (n + 32) else c)"

definition toLowerCase :: "string \<Rightarrow> string" where
  "toLowerCase s = map lower_char s"

text \<open>
  The accent colour \<^verbatim>\<open>newNote\<close> computes,
  \<^verbatim>\<open>c && hexColorRegex.test(c) ? c.toLowerCase() : ''\<close>: \<^verbatim>\<open>test\<close> converts its argument
  to a string, and a value that is not a string has no method \<^verbatim>\<open>toLowerCase\<close>, so the
  call throws a TypeError for it.
\<close>

definition note_accentColor :: "note_properties \<Rightarrow> js_error + string" where
  "note_accentColor noteProperties =
     (if prop_truthy (np_accentColor noteProperties)
         \<and> hexColorRegex_test (prop_string (np_accentColor noteProperties))
      then (case np_accentColor noteProperties of
              Text c \<Rightarrow> Inr (toLowerCase c)
            | _ \<Rightarrow> Inl TypeError)
      else Inr [])"

text \<open>The id, the title and the text \<^verbatim>\<open>newNote\<close> computes.\<close>

definition note_id :: "Notepad \<Rightarrow> note_properties \<Rightarrow> nat \<Rightarrow> string" where
  "note_id s noteProperties now =
     (if prop_truthy (np_id noteProperties) then prop_string (np_id noteProperties)
      else generateID ''note'' (num_str (length (notesContainerIndex s) + 1)) now)"

definition note_title_of :: "note_properties \<Rightarrow> string" where
  "note_title_of noteProperties =
     (if np_title noteProperties = Text [] \<or> prop_truthy (np_title noteProperties)
      then prop_string (np_title noteProperties)
      else default_noteTitle)"

definition note_content :: "note_properties \<Rightarrow> string" where
  "note_content noteProperties =
     (if prop_truthy (np_content noteProperties) then prop_string (np_content noteProperties)
      else [])"

text \<open>
  \<^verbatim>\<open>newNote(noteProperties)\<close> on the notes container. \<open>now\<close> is what \<^verbatim>\<open>Date.now()\<close>
  returns inside \<^verbatim>\<open>generateID\<close>. The steps, each of which can end the call with an
  exception: the accent colour; the new colour at the end of the list of colours;
  \<^verbatim>\<open>#createNote\<close>; the new element at the end of the container; \<^verbatim>\<open>#runNoteCounters\<close>,
  which looks the id up in the document and writes counters only; the new entry of the
  index; \<^verbatim>\<open>#indexNotes\<close>.
\<close>

definition newNote :: "Notepad \<Rightarrow> note_properties \<Rightarrow> nat \<Rightarrow> Notepad outcome" where
  "newNote s noteProperties now =
     (let index = length (notesContainerIndex s) + 1;
          noteID = note_id s noteProperties now;
          title = note_title_of noteProperties;
          content = note_content noteProperties
      in case note_accentColor noteProperties of
           Inl e \<Rightarrow> Thrown e s
         | Inr accentColor \<Rightarrow>
             (let s1 = s\<lparr>accentColors :=
                           (if accentColor \<in> set (accentColors s) then accentColors s
                            else accentColors s @ [accentColor])\<rparr>
              in case createNote noteID title content accentColor (int index) of
                   Inl e \<Rightarrow> Thrown e s1
                 | Inr newNote \<Rightarrow>
                     (let s2 = s1\<lparr>notesContainer := notesContainer s1 @ [newNote]\<rparr>
                      in case getElementById s2 noteID of
                           None \<Rightarrow> Thrown TypeError s2
                         | Some counted \<Rightarrow>
                             indexNotes
                               (s2\<lparr>notesContainerIndex :=
                                     map_set (notesContainerIndex s2)
                                       (int (length (notesContainerIndex s2)) + 1)
                                       (Some noteID)\<rparr>))))"

subsection \<open>Deleting a note\<close>

text \<open>
  \<^verbatim>\<open>deleteNote\<close> compares the loop counter with the string that
  \<^verbatim>\<open>getAttribute('data-note-index')\<close> returns: \<^verbatim>\<open>null\<close> converts to 0, the string
  \<^verbatim>\<open>undefined\<close> to NaN (\<open>None\<close>), with which every comparison is false.
\<close>

definition attr_number :: "index_attr \<Rightarrow> int option" where
  "attr_number a = (case a of NoAttr \<Rightarrow> Some 0 | AttrUndefined \<Rightarrow> None | AttrNum n \<Rightarrow> Some n)"

definition key_lt :: "int \<Rightarrow> index_attr \<Rightarrow> bool" where
  "key_lt key a = (case attr_number a of None \<Rightarrow> False | Some n \<Rightarrow> key < n)"

definition key_gt :: "int \<Rightarrow> index_attr \<Rightarrow> bool" where
  "key_gt key a = (case attr_number a of None \<Rightarrow> False | Some n \<Rightarrow> key > n)"

text \<open>The body of the loop \<^verbatim>\<open>for (let key = 1; key <= originalNoteIndex.size; key++)\<close>.\<close>

definition deleteNote_step :: "js_map \<Rightarrow> index_attr \<Rightarrow> int \<Rightarrow> js_map \<Rightarrow> js_map" where
  "deleteNote_step originalNoteIndex index key m =
     (if truthy (map_get originalNoteIndex key) \<and> key_lt key index
      then map_set m key (map_get originalNoteIndex key)
      else if truthy (map_get originalNoteIndex key) \<and> key_gt key index
      then map_set m (key - 1) (map_get originalNoteIndex key)
      else m)"

text \<open>
  \<^verbatim>\<open>deleteNote(noteID)\<close>. There is no test of the element found: on \<^verbatim>\<open>null\<close>,
  \<^verbatim>\<open>note.remove()\<close> throws a TypeError before anything is changed. The index is
  emptied (\<^verbatim>\<open>delete\<close> of the position, then \<^verbatim>\<open>clear\<close>) and rebuilt from the copy taken
  before. When the id is the one of the entry point or of the \<^verbatim>\<open>.notepad\<close> element,
  that element is removed, with the notes in it, and the index is rebuilt and re-indexed
  all the same.
\<close>

definition deleteNote :: "Notepad \<Rightarrow> string \<Rightarrow> Notepad outcome" where
  "deleteNote s noteID =
     (case getElementById s noteID of
        None \<Rightarrow> Thrown TypeError s
      | Some note \<Rightarrow>
          (let index = index_attr_of s note;
               originalNoteIndex = notesContainerIndex s;
               rebuilt = fold (deleteNote_step originalNoteIndex index)
                           [1 .. int (length originalNoteIndex)] []
           in case note of
                Note i \<Rightarrow>
                  indexNotes
                    (s\<lparr>notesContainer := remove_nth i (notesContainer s),
                       notesContainerIndex := rebuilt\<rparr>)
              | NotepadElement \<Rightarrow> indexNotes_detached False (s\<lparr>notesContainerIndex := rebuilt\<rparr>)
              | EntryPoint \<Rightarrow> indexNotes_detached True (s\<lparr>notesContainerIndex := rebuilt\<rparr>)))"

subsection \<open>Moving a note\<close>

text \<open>Reading an array at a number: \<^verbatim>\<open>undefined\<close> outside the array.\<close>

definition array_get :: "string option list \<Rightarrow> int \<Rightarrow> string option" where
  "array_get xs i = (if 0 \<le> i \<and> i < int (length xs) then xs ! nat i else None)"

text \<open>
  \<^verbatim>\<open>insertBefore(node, child)\<close> on the notes container, the reference child given by its
  position, \<open>None\<close> for \<^verbatim>\<open>null\<close> (the node is appended).
\<close>

definition insertBefore :: "'a list \<Rightarrow> 'a \<Rightarrow> nat option \<Rightarrow> 'a list" where
  "insertBefore xs x child = (case child of None \<Rightarrow> xs @ [x] | Some j \<Rightarrow> insert_at j x xs)"

text \<open>The position of the element at \<open>j\<close> once the element at \<open>i \<noteq> j\<close> is removed.\<close>

definition shifted :: "nat \<Rightarrow> nat \<Rightarrow> nat" where
  "shifted i j = (if j < i then j else j - 1)"

text \<open>
  The body of the loop over the index when the note moves to a smaller position; the
  state of the loop is the index and the array \<^verbatim>\<open>cachedNoteIDs\<close>.
\<close>

definition moveNote_up_step ::
  "int \<Rightarrow> int \<Rightarrow> int \<Rightarrow> js_map \<times> string option list \<Rightarrow> js_map \<times> string option list" where
  "moveNote_up_step oldIndex newIndex index st =
     (case st of (m, cachedNoteIDs) \<Rightarrow>
        if index > newIndex + 1 \<and> index \<le> oldIndex
        then (let cached = cachedNoteIDs @ [map_get m index]
              in (map_set m index (array_get cached (int (length cached) - 2)), cached))
        else (m, cachedNoteIDs))"

text \<open>The body of the loop over the index in the other branch.\<close>

definition moveNote_down_step :: "int \<Rightarrow> int \<Rightarrow> string option \<Rightarrow> int \<Rightarrow> js_map \<Rightarrow> js_map" where
  "moveNote_down_step oldIndex newIndex cachedMovedNoteID index m =
     (if index \<ge> oldIndex \<and> index < newIndex then map_set m index (map_get m (index + 1))
      else if index = newIndex then map_set m index cachedMovedNoteID
      else m)"

text \<open>
  \<^verbatim>\<open>moveNote(noteID, oldIndex, newIndex)\<close>. The new position is bounded from above
  only. \<^verbatim>\<open>currentNote\<close> is looked up before the note is taken out of the container:
  \<^item> in the first branch \<^verbatim>\<open>insertBefore(note, currentNote)\<close> appends on \<^verbatim>\<open>null\<close> and
    throws a NotFoundError when \<^verbatim>\<open>currentNote\<close> is the removed note itself;
  \<^item> in the second branch \<^verbatim>\<open>currentNote.nextSibling\<close> throws a TypeError on \<^verbatim>\<open>null\<close> and
    is \<^verbatim>\<open>null\<close> when \<^verbatim>\<open>currentNote\<close> is the removed note itself or the last child.
  Both loops run over the entries of the \<^verbatim>\<open>Map\<close> and set keys that are present only,
  so the entries they visit are those at the start of the loop.

  When the id is the one of the entry point or of the \<^verbatim>\<open>.notepad\<close> element, that
  element gets the attribute, the first note's input gets the position (a TypeError in
  an empty container) and the element is removed from the document. It contains the
  notes container, so \<^verbatim>\<open>insertBefore\<close> throws a HierarchyRequestError, after the
  TypeError of \<^verbatim>\<open>currentNote.nextSibling\<close> in the second branch; the index is not
  touched.
\<close>

definition moveNote :: "Notepad \<Rightarrow> string \<Rightarrow> int \<Rightarrow> int \<Rightarrow> Notepad outcome" where
  "moveNote s noteID oldIndex requested =
     (let m = notesContainerIndex s;
          newIndex = (if requested \<le> int (length m) then requested else int (length m));
          currentNote = querySelector_index (notesContainer s) newIndex
      in case getElementById s noteID of
           None \<Rightarrow> Done s
         | Some (Note i) \<Rightarrow>
             (let note = (notesContainer s ! i)
                           \<lparr>data_note_index := AttrUndefined,
                            input_value := Some newIndex,
                            input_default := Some newIndex\<rparr>;
                  others = remove_nth i (notesContainer s);
                  cachedMovedNoteID = map_get m oldIndex;
                  cachedNoteID = map_get m newIndex
              in if newIndex < oldIndex then
                   (if currentNote = Some i then Thrown NotFoundError (s\<lparr>notesContainer := others\<rparr>)
                    else
                      (let m2 = map_set (map_set m (newIndex + 1) cachedNoteID) newIndex cachedMovedNoteID;
                           m3 = fst (fold (moveNote_up_step oldIndex newIndex) (map_keys m2)
                                       (m2, [map_get m (newIndex + 1)]))
                       in indexNotes
                            (s\<lparr>notesContainer := insertBefore others note (map_option (shifted i) currentNote),
                               notesContainerIndex := m3\<rparr>)))
                 else
                   (case currentNote of
                      None \<Rightarrow> Thrown TypeError (s\<lparr>notesContainer := others\<rparr>)
                    | Some j \<Rightarrow>
                        indexNotes
                          (s\<lparr>notesContainer :=
                               (if j = i \<or> Suc (shifted i j) = length others then others @ [note]
                                else insert_at (Suc (shifted i j)) note others),
                             notesContainerIndex :=
                               fold (moveNote_down_step oldIndex newIndex cachedMovedNoteID)
                                 (map_keys m) m\<rparr>)))
         | Some outer \<Rightarrow>
             (if notesContainer s = [] then Thrown TypeError (set_outer_index s outer AttrUndefined)
              else
                (let s1 = (set_outer_index s outer AttrUndefined)
                            \<lparr>notesContainer := (notesContainer s)
                               [0 := (notesContainer s ! 0)
                                  \<lparr>input_value := Some newIndex,
                                   input_default := Some newIndex\<rparr>]\<rparr>
                 in if newIndex < oldIndex then Detached (Some HierarchyRequestError) s1
                    else (case currentNote of
                            None \<Rightarrow> Detached (Some TypeError) s1
                          | Some j \<Rightarrow> Detached (Some HierarchyRequestError) s1))))"

subsection \<open>The notepad as a whole\<close>

definition no_properties :: note_properties where
  "no_properties =
     \<lparr>np_id = Missing, np_title = Missing, np_content = Missing, np_accentColor = Missing\<rparr>"

text \<open>
  \<^verbatim>\<open>newNotepad(addNewNote)\<close>. The three results of \<^verbatim>\<open>Date.now()\<close> are arguments: the one
  inside \<^verbatim>\<open>newNote\<close>, the one of the new id and the one of the timestamps. The mutation
  observer is not part of the model.
\<close>

definition newNotepad :: "Notepad \<Rightarrow> bool \<Rightarrow> nat \<Rightarrow> nat \<Rightarrow> nat \<Rightarrow> Notepad outcome" where
  "newNotepad s addNewNote now_note now_id currentTime =
     (let cleared = s\<lparr>notesContainer := [], notesContainerIndex := []\<rparr>
      in case (if addNewNote then newNote cleared no_properties now_note else Done cleared) of
           Done s' \<Rightarrow>
             Done (s'\<lparr>notepad_id := generateID ''notepad'' [] now_id,
                      notepadCreated := currentTime,
                      notepadLastUpdate := currentTime,
                      header := default_notepadTitle,
                      accentColors := default_accentColors\<rparr>)
         | Thrown e s' \<Rightarrow> Thrown e s'
         | Detached e s' \<Rightarrow> Detached e s')"

text \<open>
  The constructor, given the id of the entry point (the empty string when that element
  has none), which carries no \<^verbatim>\<open>data-note-index\<close>: a notepad with the default title
  and one empty note (\<^verbatim>\<open>#addNotesContainer(true)\<close>).
\<close>

definition Notepad_constructor :: "string \<Rightarrow> nat \<Rightarrow> nat \<Rightarrow> nat \<Rightarrow> Notepad outcome" where
  "Notepad_constructor entryPoint now_id currentTime now_note =
     newNote
       \<lparr>entryPoint_id = entryPoint,
        entryPoint_index = NoAttr,
        notepad_id = generateID ''notepad'' [] now_id,
        notepad_index = NoAttr,
        notepadCreated = currentTime,
        notepadLastUpdate = currentTime,
        header = default_notepadTitle,
        notesContainer = [],
        notesContainerIndex = [],
        accentColors = default_accentColors\<rparr>
       no_properties now_note"



text \<open>
  \<^verbatim>\<open>#fillNotepad(notepad, clear)\<close>: \<^verbatim>\<open>forEach\<close> calls \<^verbatim>\<open>newNote\<close> on the notes of the
  record in array order; \<open>clock k\<close> is what \<^verbatim>\<open>Date.now()\<close> returns in the call for the
  note at position \<open>k\<close> of the array.
\<close>

fun fill_notes :: "Notepad \<Rightarrow> note_properties list \<Rightarrow> (nat \<Rightarrow> nat) \<Rightarrow> nat \<Rightarrow> Notepad outcome" where
  "fill_notes s [] clock k = Done s"
| "fill_notes s (noteProperties # rest) clock k =
     (case newNote s noteProperties (clock k) of
        Done s' \<Rightarrow> fill_notes s' rest clock (Suc k)
      | Thrown e s' \<Rightarrow> Thrown e s'
      | Detached e s' \<Rightarrow> Detached e s')"

definition fillNotepad ::
  "Notepad \<Rightarrow> notepad_record \<Rightarrow> bool \<Rightarrow> nat \<Rightarrow> nat \<Rightarrow> (nat \<Rightarrow> nat) \<Rightarrow> Notepad outcome" where
  "fillNotepad s notepad clear now_id currentTime clock =
     (case (if clear then newNotepad s False now_id now_id currentTime else Done s) of
        Done s' \<Rightarrow>
          fill_notes
            (s'\<lparr>notepad_id := nr_id notepad,
                notepadCreated := nr_created notepad,
                notepadLastUpdate := nr_lastUpdate notepad,
                header := nr_title notepad\<rparr>)
            (nr_notes notepad) clock 0
      | Thrown e s' \<Rightarrow> Thrown e s'
      | Detached e s' \<Rightarrow> Detached e s')"

subsection \<open>Duplicating a stored notepad\<close>

text \<open>
  \<^verbatim>\<open>#duplicateNotepad\<close> works on JavaScript objects, which are references: the store holds
  the notepad objects, an address being a position in \<open>objects\<close>, and the arrays of notes
  they refer to. \<^verbatim>\<open>Object.assign({}, notepad)\<close> allocates a new object with the same
  property values, so the copy refers to the same array of notes.

  The entry \<^verbatim>\<open>notepads\<close> of the local storage is kept parsed, as an association list from
  notepad ids to records (\<^verbatim>\<open>JSON.stringify\<close> writes the notes out in full). Whether
  \<^verbatim>\<open>setItem\<close> succeeds is an input; when it throws, \<^verbatim>\<open>#storeNotepad\<close> shows an alert.
\<close>

record notepad_object =
  o_title :: string
  o_id :: string
  o_created :: nat
  o_lastUpdate :: nat
  o_notes :: nat

record store =
  objects :: "notepad_object list"
  arrays :: "note_properties list list"
  localStorage :: "(string \<times> notepad_record) list"
  alerts :: "string list"

definition stringify :: "store \<Rightarrow> notepad_object \<Rightarrow> notepad_record" where
  "stringify w ob =
     \<lparr>nr_title = o_title ob, nr_id = o_id ob, nr_created = o_created ob,
      nr_lastUpdate = o_lastUpdate ob, nr_notes = arrays w ! o_notes ob\<rparr>"

text \<open>\<^verbatim>\<open>#storeNotepad(notepad)\<close> with its argument given.\<close>

definition storeNotepad :: "store \<Rightarrow> nat \<Rightarrow> bool \<Rightarrow> store" where
  "storeNotepad w notepad setItem_ok =
     (let toBeStoredNotepad = objects w ! notepad;
          notepadsObject = AList.update (o_id toBeStoredNotepad) (stringify w toBeStoredNotepad)
                             (localStorage w)
      in if setItem_ok then w\<lparr>localStorage := notepadsObject\<rparr>
         else w\<lparr>alerts := alerts w @ [''Local storage error.'']\<rparr>)"

text \<open>
  \<^verbatim>\<open>#duplicateNotepad(notepad)\<close>: \<open>now_id\<close> and \<open>currentTime\<close> are the two results of
  \<^verbatim>\<open>Date.now()\<close>. The result is the new store and the address of the duplicate.
\<close>

definition duplicateNotepad :: "store \<Rightarrow> nat \<Rightarrow> nat \<Rightarrow> nat \<Rightarrow> bool \<Rightarrow> store \<times> nat" where
  "duplicateNotepad w notepad now_id currentTime setItem_ok =
     (let duplicatedNotepad = length (objects w);
          copy = objects w ! notepad;
          copy1 = copy\<lparr>o_id := generateID ''notepad'' [] now_id\<rparr>;
          copy2 = copy1\<lparr>o_title := o_title copy1 @ '' (Copy)''\<rparr>;
          copy3 = copy2\<lparr>o_created := currentTime, o_lastUpdate := currentTime\<rparr>
      in (storeNotepad (w\<lparr>objects := objects w @ [copy3]\<rparr>) duplicatedNotepad setItem_ok,
          duplicatedNotepad))"
subsection \<open>Example values\<close>

definition hello_world_emoji :: codepoints where
  "hello_world_emoji =
     [0x48, 0x65, 0x6C, 0x6C, 0x6F, 0x20, 0x77, 0x6F, 0x72, 0x6C, 0x64, 0x20, 0x1F389]"

definition a_b_c_d :: codepoints where
  "a_b_c_d = [0x61, 0x20, 0x62, 0x20, 0x63, 0x20, 0x64]"

definition only_party_popper :: "nat \<Rightarrow> bool" where
  "only_party_popper c \<longleftrightarrow> c = 0x1F389"

text \<open>An action that stores its argument and then rejects arguments above 5.\<close>

definition store_small :: "(nat, nat) action" where
  "store_small d w = (if d > 5 then Inl (''too large'', d) else Inr d)"

text \<open>
  An action in the manner of the one \<^verbatim>\<open>#restoreNotepads\<close> passes (replace the stored
  notepads, then open a new notepad): the state is the stored data and the number of
  notes of the open notepad. The data is stored, data above 5 is then rejected, and on
  success the open notepad is replaced by one with a single note.
\<close>

definition restore_small :: "(nat, nat \<times> nat) action" where
  "restore_small d w = (if d > 5 then Inl (''too large'', (d, snd w)) else Inr (d, 1))"

definition blank_notepad :: Notepad where
  "blank_notepad =
     \<lparr>entryPoint_id = ''notepad-entry-point'', entryPoint_index = NoAttr,
      notepad_id = ''notepad1'', notepad_index = NoAttr,
      notepadCreated = 1, notepadLastUpdate = 1,
      header = default_notepadTitle, notesContainer = [], notesContainerIndex = [],
      accentColors = default_accentColors\<rparr>"

definition note_with_id :: "string \<Rightarrow> note_properties" where
  "note_with_id i = no_properties\<lparr>np_id := Text i\<rparr>"

text \<open>The notepad with the notes \<open>a\<close> and \<open>b\<close>.\<close>

definition notepad_ab :: Notepad where
  "notepad_ab =
     state_of (fill_notes blank_notepad [note_with_id ''a'', note_with_id ''b''] (\<lambda>k. 0) 0)"

definition one_stored_notepad :: store where
  "one_stored_notepad =
     \<lparr>objects = [\<lparr>o_title = ''Shopping'', o_id = generateID ''notepad'' [] 41,
                   o_created = 41, o_lastUpdate = 43, o_notes = 0\<rparr>],
      arrays = [[note_with_id ''a'']],
      localStorage = [],
      alerts = []\<rparr>"

subsection \<open>What the claims speak about\<close>

text \<open>
  What \<^verbatim>\<open>dataFallbackMode\<close> tells the user (the alerts among its reports) and whether
  it tells its caller (it ends with an exception).
\<close>

fun alert_texts :: "report list \<Rightarrow> string list" where
  "alert_texts [] = []"
| "alert_texts (Alert t # rest) = t # alert_texts rest"
| "alert_texts (ConsoleError t e # rest) = alert_texts rest"

definition throws :: "((string \<times> 'w) + 'w) \<times> report list \<Rightarrow> bool" where
  "throws r = (case fst r of Inl e \<Rightarrow> True | Inr w \<Rightarrow> False)"

text \<open>What a record keeps of a note element: id, title, text and accent colour.\<close>

definition note_data :: "note_element \<Rightarrow> string \<times> string \<times> string \<times> string" where
  "note_data e = (elem_id e, note_title e, note_text e, accent_color e)"

text \<open>
  What holds of every element that \<^verbatim>\<open>newNote\<close> creates and counts: the id is not empty
  and holds no ASCII white space, and the accent colour is empty or a hexadecimal colour
  in lower case.
\<close>

definition note_wf :: "note_element \<Rightarrow> bool" where
  "note_wf e \<longleftrightarrow>
     elem_id e \<noteq> [] \<and> \<not> list_ex ascii_whitespace (elem_id e) \<and>
     (accent_color e = [] \<or>
      hexColorRegex_test (accent_color e) \<and> toLowerCase (accent_color e) = accent_color e)"







text \<open>The operations on the notes, and a sequence of them run from a notepad.\<close>

datatype operation =
  NewNote note_properties nat
| DeleteNote string
| MoveNote string int int

fun apply_op :: "Notepad \<Rightarrow> operation \<Rightarrow> Notepad outcome" where
  "apply_op s (NewNote noteProperties now) = newNote s noteProperties now"
| "apply_op s (DeleteNote noteID) = deleteNote s noteID"
| "apply_op s (MoveNote noteID oldIndex newIndex) = moveNote s noteID oldIndex newIndex"








text \<open>
  \<^verbatim>\<open>#changeNoteAccentColor(noteID)\<close>, the other writer of \<^verbatim>\<open>data-accent-color\<close>: the note
  gets the colour that follows its own in the list of accent colours, the first one when
  its colour is the last or is not in the list. \<^verbatim>\<open>note.querySelector\<close> throws a TypeError
  when no element has the id; in the entry point and in the \<^verbatim>\<open>.notepad\<close> element it
  finds the title container of the first note, and \<^verbatim>\<open>null\<close> in an empty container.
\<close>

fun indexOf :: "string list \<Rightarrow> string \<Rightarrow> nat" where
  "indexOf [] c = 0"
| "indexOf (x # xs) c = (if x = c then 0 else Suc (indexOf xs c))"

definition color_at :: "string list \<Rightarrow> nat \<Rightarrow> string" where
  "color_at colors k = (if k < length colors then colors ! k else [])"

definition title_container_of :: "Notepad \<Rightarrow> element \<Rightarrow> nat option" where
  "title_container_of s el =
     (case el of
        Note i \<Rightarrow> Some i
      | _ \<Rightarrow> (if notesContainer s = [] then None else Some 0))"

definition changeNoteAccentColor :: "Notepad \<Rightarrow> string \<Rightarrow> Notepad outcome" where
  "changeNoteAccentColor s noteID =
     (case getElementById s noteID of
        None \<Rightarrow> Thrown TypeError s
      | Some note \<Rightarrow>
          (case title_container_of s note of
             None \<Rightarrow> Thrown TypeError s
           | Some i \<Rightarrow>
               (let attr = accent_color (notesContainer s ! i);
                    currentColor = (if attr \<noteq> [] then toLowerCase attr else []);
                    colors = accentColors s;
                    nextColor =
                      (if currentColor \<in> set colors
                       then (if Suc (indexOf colors currentColor) \<noteq> length colors
                             then color_at colors (Suc (indexOf colors currentColor))
                             else color_at colors 0)
                       else color_at colors 0)
                in Done (s\<lparr>notesContainer :=
                             (notesContainer s)[i := (notesContainer s ! i)\<lparr>accent_color := nextColor\<rparr>]\<rparr>))))"

text \<open>
  The colours are well-formed: every note is as \<^verbatim>\<open>newNote\<close> creates it and every accent
  colour of the list is empty or a hexadecimal colour in lower case.
\<close>

definition color_wf :: "string \<Rightarrow> bool" where
  "color_wf c \<longleftrightarrow> c = [] \<or> hexColorRegex_test c \<and> toLowerCase c = c"

definition notes_wf :: "Notepad \<Rightarrow> bool" where
  "notes_wf s \<longleftrightarrow> list_all note_wf (notesContainer s) \<and> list_all color_wf (accentColors s)"

section \<open>Properties of the text metrics\<close>

text \<open>
  C8: \<^verbatim>\<open>countWords\<close> applied to the string "Hello world" followed by a space and the
  emoji U+1F389 returns 3: "Hello" and "world", each with the white space after it, and
  the emoji are the three maximal runs of word characters. The two facts of the Unicode
  tables that the result rests on are hypotheses: the emoji has the property
  Extended_Pictographic and the space has not.
\<close>

theorem countWords_hello_world_emoji:
  assumes "ep 0x1F389" and "\<not> ep 0x20"
  shows "countWords ep hello_world_emoji = 3"
  using assms
  by (simp add: hello_world_emoji_def countWords_def count_matches.simps match_here_def
        starts_word_def word_char_def js_space_def)

theorem countWords_hello_world_emoji_witness:
  "only_party_popper 0x1F389 \<and> \<not> only_party_popper 0x20
   \<and> countWords only_party_popper hello_world_emoji = 3"
  using countWords_hello_world_emoji [of only_party_popper]
  by (simp add: only_party_popper_def)

text \<open>
  C7: the two estimators of the reading time do not compute the same seconds. For the
  four words of "a b c d", \<^verbatim>\<open>getReadTime\<close> of src/js/utilities.js, which divides by
  283 / 60, gives 1 second, and the one of the later revision, which divides by 238 / 60,
  gives 2 seconds.
\<close>

theorem getReadTime_four_words:
  assumes "\<not> ep 0x20"
  shows "getReadTime ep a_b_c_d = 1 \<and> getReadTime_seconds2 ep a_b_c_d = 2"
  using assms
  by (simp add: a_b_c_d_def getReadTime_def getReadTime_seconds2_def countWords_def
        count_matches.simps match_here_def starts_word_def word_char_def js_space_def)

theorem getReadTime_four_words_witness:
  "\<not> only_party_popper 0x20
   \<and> getReadTime only_party_popper a_b_c_d = 1
   \<and> getReadTime_seconds2 only_party_popper a_b_c_d = 2"
  using getReadTime_four_words [of only_party_popper]
  by (simp add: only_party_popper_def)

section \<open>Properties of the fallback-safe mutator\<close>

text \<open>
  C6, as the code has it. Take an action that, whenever it returns normally on some
  data, leaves the state that this data stands for (\<open>install d\<close>), and a prior state that
  is the one the old data stands for. When the action throws on the new data and
  returns normally on the old data, \<^verbatim>\<open>dataFallbackMode\<close> returns normally and the final
  state is the prior state. The failure is reported once: in src/js/utilities.js by one
  alert shown to the user; in the later revision by one \<^verbatim>\<open>console.error\<close>, with no
  alert and no exception for the caller.
\<close>

theorem dataFallbackMode_restores_installed_state:
  assumes "action newData w = Inl (e, w1)"
    and "action oldData w1 = Inr w2"
    and "\<And>d u u'. action d u = Inr u' \<Longrightarrow> u' = install d"
    and "w = install oldData"
  shows "dataFallbackMode oldData newData action w =
           (Inr w, [Alert (''The action could not be performed.'' @ [CHR 0x0A] @ e)])
       \<and> alert_texts (snd (dataFallbackMode oldData newData action w))
           = [''The action could not be performed.'' @ [CHR 0x0A] @ e]
       \<and> \<not> throws (dataFallbackMode oldData newData action w)
       \<and> dataFallbackMode2 oldData newData action w =
           (Inr w, [ConsoleError ''Action failed, reverting.'' e])
       \<and> alert_texts (snd (dataFallbackMode2 oldData newData action w)) = []
       \<and> \<not> throws (dataFallbackMode2 oldData newData action w)"
proof -
  from assms(3)[OF assms(2)] assms(4) have "w2 = w"
    by simp
  with assms(1,2) show ?thesis
    by (simp add: dataFallbackMode_def dataFallbackMode2_def throws_def)
qed

theorem dataFallbackMode_restores_installed_state_witness:
  "store_small 9 1 = Inl (''too large'', 9) \<and> store_small 1 9 = Inr 1
   \<and> dataFallbackMode 1 9 store_small 1 =
        (Inr 1, [Alert (''The action could not be performed.'' @ [CHR 0x0A] @ ''too large'')])
   \<and> \<not> throws (dataFallbackMode 1 9 store_small 1)
   \<and> dataFallbackMode2 1 9 store_small 1 =
        (Inr 1, [ConsoleError ''Action failed, reverting.'' ''too large''])
   \<and> alert_texts (snd (dataFallbackMode2 1 9 store_small 1)) = []
   \<and> \<not> throws (dataFallbackMode2 1 9 store_small 1)"
proof -
  have h1: "store_small 9 1 = Inl (''too large'', 9)" and h2: "store_small 1 9 = Inr 1"
    by (simp_all add: store_small_def)
  have "dataFallbackMode 1 9 store_small 1 =
           (Inr 1, [Alert (''The action could not be performed.'' @ [CHR 0x0A] @ ''too large'')])
       \<and> alert_texts (snd (dataFallbackMode 1 9 store_small 1))
           = [''The action could not be performed.'' @ [CHR 0x0A] @ ''too large'']
       \<and> \<not> throws (dataFallbackMode 1 9 store_small 1)
       \<and> dataFallbackMode2 1 9 store_small 1 =
           (Inr 1, [ConsoleError ''Action failed, reverting.'' ''too large''])
       \<and> alert_texts (snd (dataFallbackMode2 1 9 store_small 1)) = []
       \<and> \<not> throws (dataFallbackMode2 1 9 store_small 1)"
    by (rule dataFallbackMode_restores_installed_state
               [where install = "\<lambda>d. d" and ?w1.0 = 9 and ?w2.0 = 1, OF h1 h2])
       (simp_all add: store_small_def split: if_splits)
  with h1 h2 show ?thesis
    by blast
qed

text \<open>
  C6 as stated fails. With an action that stores the data, rejects data above 5 and on
  success opens a new notepad with one note (as the action of \<^verbatim>\<open>#restoreNotepads\<close>
  does), started with the old data stored and three notes open: the action throws on the
  new data 9 and returns normally on the old data 1, and the final state, the one the
  action produces from the old data, is not the prior state. In the later revision the
  failure is written to the console only: no alert is shown and the call returns
  normally.
\<close>

theorem dataFallbackMode_final_state_differs:
  "restore_small 9 (1, 3) = Inl (''too large'', (9, 3))
   \<and> restore_small 1 (9, 3) = Inr (1, 1)
   \<and> fst (dataFallbackMode 1 9 restore_small (1, 3)) = Inr (1, 1)
   \<and> fst (dataFallbackMode 1 9 restore_small (1, 3)) \<noteq> Inr (1, 3)
   \<and> fst (dataFallbackMode2 1 9 restore_small (1, 3)) = Inr (1, 1)
   \<and> fst (dataFallbackMode2 1 9 restore_small (1, 3)) \<noteq> Inr (1, 3)
   \<and> snd (dataFallbackMode2 1 9 restore_small (1, 3))
       = [ConsoleError ''Action failed, reverting.'' ''too large'']
   \<and> alert_texts (snd (dataFallbackMode2 1 9 restore_small (1, 3))) = []
   \<and> \<not> throws (dataFallbackMode2 1 9 restore_small (1, 3))"
  by (simp add: restore_small_def dataFallbackMode_def dataFallbackMode2_def throws_def)

section \<open>Facts about identifiers and lookups\<close>

lemma num_str_nonempty: "num_str n \<noteq> []"
  by (subst num_str.simps) simp

lemma digit_char_inj: "a < 10 \<Longrightarrow> b < 10 \<Longrightarrow> digit_char a = digit_char b \<Longrightarrow> a = b"
  by (simp add: digit_char_def char_of_eq_iff take_bit_eq_mod)

text \<open>Different numbers have different decimal expansions.\<close>

lemma num_str_inj: "num_str a = num_str b \<Longrightarrow> a = b"
proof (induction a arbitrary: b rule: num_str.induct)
  case (1 n)
  show ?case
  proof (cases "n < 10")
    case True
    show ?thesis
    proof (cases "b < 10")
      case b: True
      with True 1(2) show ?thesis
        by (simp add: num_str.simps[of n] num_str.simps[of b] digit_char_inj)
    next
      case b: False
      with True 1(2) num_str_nonempty[of "b div 10"] show ?thesis
        by (simp add: num_str.simps[of n] num_str.simps[of b])
    qed
  next
    case False
    show ?thesis
    proof (cases "b < 10")
      case b: True
      with False 1(2) num_str_nonempty[of "n div 10"] show ?thesis
        by (simp add: num_str.simps[of n] num_str.simps[of b])
    next
      case b: False
      from False b 1(2) have e: "num_str (n div 10) = num_str (b div 10)"
        and d: "digit_char (n mod 10) = digit_char (b mod 10)"
        by (simp_all add: num_str.simps[of n] num_str.simps[of b])
      from 1(1)[OF False e] have "n div 10 = b div 10" .
      moreover from d have "n mod 10 = b mod 10"
        by (intro digit_char_inj) simp_all
      ultimately show ?thesis
        by (metis div_mult_mod_eq)
    qed
  qed
qed

lemma first_index_Some:
  "first_index P xs = Some i \<Longrightarrow> i < length xs \<and> P (xs ! i) \<and> (\<forall>j<i. \<not> P (xs ! j))"
proof (induction xs arbitrary: i)
  case Nil
  then show ?case by simp
next
  case (Cons x xs)
  show ?case
  proof (cases "P x")
    case True
    with Cons.prems show ?thesis by simp
  next
    case False
    with Cons.prems obtain k where k: "first_index P xs = Some k" and i: "i = Suc k"
      by auto
    from Cons.IH[OF k] i False show ?thesis
      by (auto simp: less_Suc_eq_0_disj)
  qed
qed

lemma first_index_None: "first_index P xs = None \<longleftrightarrow> (\<forall>x\<in>set xs. \<not> P x)"
  by (induction xs) auto

lemma first_index_map: "first_index (\<lambda>e. P (f e)) xs = first_index P (map f xs)"
  by (induction xs) auto

text \<open>A lookup that returns a note returns the first note with the id.\<close>

lemma getElementById_Note:
  "getElementById s i = Some (Note k) \<Longrightarrow>
     k < length (notesContainer s) \<and> elem_id (notesContainer s ! k) = i \<and> i \<noteq> []
     \<and> entryPoint_id s \<noteq> i \<and> notepad_id s \<noteq> i"
  by (auto simp: getElementById_def dest: first_index_Some split: if_splits)

lemma getElementById_None:
  "getElementById s i = None \<longleftrightarrow>
     i = [] \<or> (entryPoint_id s \<noteq> i \<and> notepad_id s \<noteq> i \<and> i \<notin> elem_id ` set (notesContainer s))"
  by (auto simp: getElementById_def first_index_None)

lemma getElementById_cong:
  assumes "entryPoint_id s' = entryPoint_id s" and "notepad_id s' = notepad_id s"
    and "map elem_id (notesContainer s') = map elem_id (notesContainer s)"
  shows "getElementById s' i = getElementById s i"
  using assms by (simp add: getElementById_def first_index_map[of "\<lambda>x. x = i" elem_id])


text \<open>An id of a note is found on some element.\<close>

lemma getElementById_found:
  assumes "i \<noteq> []" and "i \<in> elem_id ` set (notesContainer s)"
  shows "getElementById s i \<noteq> None"
  using assms by (simp add: getElementById_None)

lemma note_data_index_update [simp]:
  "note_data (e\<lparr>data_note_index := a\<rparr>) = note_data e"
  "note_data (e\<lparr>input_value := b\<rparr>) = note_data e"
  "note_data (e\<lparr>input_default := c\<rparr>) = note_data e"
  "note_data (e\<lparr>input_max := d\<rparr>) = note_data e"
  by (simp_all add: note_data_def)

lemma set_outer_index_frame [simp]:
  "notesContainer (set_outer_index s el v) = notesContainer s"
  "notesContainerIndex (set_outer_index s el v) = notesContainerIndex s"
  "accentColors (set_outer_index s el v) = accentColors s"
  "header (set_outer_index s el v) = header s"
  "notepad_id (set_outer_index s el v) = notepad_id s"
  "entryPoint_id (set_outer_index s el v) = entryPoint_id s"
  "notepadCreated (set_outer_index s el v) = notepadCreated s"
  "notepadLastUpdate (set_outer_index s el v) = notepadLastUpdate s"
  by (simp_all add: set_outer_index_def split: element.splits)

text \<open>One step of the loop of \<^verbatim>\<open>#indexNotes\<close>, by the element that is found.\<close>

lemma indexNotes_loop_None:
  "getElementById s (js_string (map_get (notesContainerIndex s) k)) = None \<Longrightarrow>
     indexNotes_loop (k # ks) s = Thrown TypeError s"
  by simp

lemma indexNotes_loop_Note:
  "getElementById s (js_string (map_get (notesContainerIndex s) k)) = Some (Note i) \<Longrightarrow>
     indexNotes_loop (k # ks) s =
       indexNotes_loop ks
         (s\<lparr>notesContainer := (notesContainer s)
              [i := (notesContainer s ! i)
                 \<lparr>data_note_index := AttrNum k,
                  input_value := Some k,
                  input_default := Some k,
                  input_max := int (length (notesContainerIndex s))\<rparr>]\<rparr>)"
  by simp

lemma indexNotes_loop_outer:
  assumes "getElementById s (js_string (map_get (notesContainerIndex s) k)) = Some el"
    and "el = EntryPoint \<or> el = NotepadElement"
  shows "indexNotes_loop (k # ks) s =
       (if notesContainer s = [] then Thrown TypeError (set_outer_index s el (AttrNum k))
        else indexNotes_loop ks
               ((set_outer_index s el (AttrNum k))
                  \<lparr>notesContainer := (notesContainer s)
                     [0 := (notesContainer s ! 0)
                        \<lparr>input_value := Some k,
                         input_default := Some k,
                         input_max := int (length (notesContainerIndex s))\<rparr>]\<rparr>))"
  using assms by auto

declare indexNotes_loop.simps(2) [simp del]

text \<open>
  Whether it throws or not, \<^verbatim>\<open>#indexNotes\<close> changes nothing but the position attributes
  of the elements.
\<close>

lemma indexNotes_loop_frame:
  "map note_data (notesContainer (state_of (indexNotes_loop ks s))) = map note_data (notesContainer s)
   \<and> notesContainerIndex (state_of (indexNotes_loop ks s)) = notesContainerIndex s
   \<and> accentColors (state_of (indexNotes_loop ks s)) = accentColors s
   \<and> header (state_of (indexNotes_loop ks s)) = header s
   \<and> notepad_id (state_of (indexNotes_loop ks s)) = notepad_id s
   \<and> entryPoint_id (state_of (indexNotes_loop ks s)) = entryPoint_id s
   \<and> notepadCreated (state_of (indexNotes_loop ks s)) = notepadCreated s
   \<and> notepadLastUpdate (state_of (indexNotes_loop ks s)) = notepadLastUpdate s"
proof (induction ks arbitrary: s)
  case Nil
  show ?case by simp
next
  case (Cons k ks)
  show ?case
  proof (cases "getElementById s (js_string (map_get (notesContainerIndex s) k))")
    case None
    then show ?thesis by (simp add: indexNotes_loop_None)
  next
    case (Some el)
    show ?thesis
    proof (cases el)
      case (Note i)
      with Some getElementById_Note[of s _ i] have "i < length (notesContainer s)"
        by simp
      then show ?thesis
        unfolding indexNotes_loop_Note[OF Some[unfolded Note]] using Cons.IH
        by (simp add: map_update list_update_same_conv)
    next
      case EntryPoint
      show ?thesis
      proof (cases "notesContainer s = []")
        case True
        then show ?thesis
          unfolding indexNotes_loop_outer[OF Some disjI1[OF EntryPoint]] by simp
      next
        case False
        then have "0 < length (notesContainer s)" by simp
        then show ?thesis
          unfolding indexNotes_loop_outer[OF Some disjI1[OF EntryPoint]] using Cons.IH False
          by (simp add: map_update list_update_same_conv)
      qed
    next
      case NotepadElement
      show ?thesis
      proof (cases "notesContainer s = []")
        case True
        then show ?thesis
          unfolding indexNotes_loop_outer[OF Some disjI2[OF NotepadElement]] by simp
      next
        case False
        then have "0 < length (notesContainer s)" by simp
        then show ?thesis
          unfolding indexNotes_loop_outer[OF Some disjI2[OF NotepadElement]] using Cons.IH False
          by (simp add: map_update list_update_same_conv)
      qed
    qed
  qed
qed

section \<open>Properties of single operations\<close>

text \<open>
  C9: \<^verbatim>\<open>#duplicateNotepad\<close> leaves the source object and every array of notes as they
  were and returns a new object: its id is generated from the time of the call (and
  differs from the source's id whenever that one was generated at another time), its
  title is the source's title followed by " (Copy)", \<^verbatim>\<open>created\<close> and \<^verbatim>\<open>lastUpdate\<close>
  are both the current time.
\<close>

theorem duplicateNotepad_fresh_copy:
  assumes "notepad < length (objects w)"
    and "duplicateNotepad w notepad now_id currentTime setItem_ok = (w', d)"
  shows "objects w' ! notepad = objects w ! notepad
       \<and> arrays w' = arrays w
       \<and> d \<noteq> notepad
       \<and> d < length (objects w')
       \<and> o_id (objects w' ! d) = generateID ''notepad'' [] now_id
       \<and> o_title (objects w' ! d) = o_title (objects w ! notepad) @ '' (Copy)''
       \<and> o_created (objects w' ! d) = currentTime
       \<and> o_lastUpdate (objects w' ! d) = currentTime
       \<and> o_notes (objects w' ! d) = o_notes (objects w ! notepad)
       \<and> (\<forall>t. o_id (objects w ! notepad) = generateID ''notepad'' [] t \<and> t \<noteq> now_id
              \<longrightarrow> o_id (objects w' ! d) \<noteq> o_id (objects w ! notepad))"
proof -
  from assms(2) have w': "w' = fst (duplicateNotepad w notepad now_id currentTime setItem_ok)"
    and d: "d = snd (duplicateNotepad w notepad now_id currentTime setItem_ok)"
    by simp_all
  show ?thesis
    unfolding w' d using assms(1)
    by (auto simp: duplicateNotepad_def storeNotepad_def Let_def nth_append generateID_def
             dest: num_str_inj)
qed

theorem duplicateNotepad_fresh_copy_witness:
  "0 < length (objects one_stored_notepad)
   \<and> objects (fst (duplicateNotepad one_stored_notepad 0 50 51 True)) ! 0
       = objects one_stored_notepad ! 0
   \<and> snd (duplicateNotepad one_stored_notepad 0 50 51 True) = 1
   \<and> o_id (objects (fst (duplicateNotepad one_stored_notepad 0 50 51 True)) ! 1) = ''notepad50''
   \<and> o_title (objects (fst (duplicateNotepad one_stored_notepad 0 50 51 True)) ! 1)
       = ''Shopping (Copy)''
   \<and> o_id (objects one_stored_notepad ! 0) = ''notepad41''"
proof -
  let ?r = "duplicateNotepad one_stored_notepad 0 50 51 True"
  have h1: "0 < length (objects one_stored_notepad)"
    by code_simp
  have h2: "?r = (fst ?r, snd ?r)"
    by simp
  have v: "snd ?r = 1" "generateID ''notepad'' [] 50 = ''notepad50''"
    "o_title (objects one_stored_notepad ! 0) = ''Shopping''"
    "o_id (objects one_stored_notepad ! 0) = ''notepad41''"
    by code_simp+
  from duplicateNotepad_fresh_copy [OF h1 h2]
  have "objects (fst ?r) ! 0 = objects one_stored_notepad ! 0
      \<and> o_id (objects (fst ?r) ! snd ?r) = generateID ''notepad'' [] 50
      \<and> o_title (objects (fst ?r) ! snd ?r) = o_title (objects one_stored_notepad ! 0) @ '' (Copy)''"
    by blast
  with h1 v show ?thesis
    by simp
qed





text \<open>
  C3: \<^verbatim>\<open>deleteNote\<close> with an id that no element carries is not a silent no-op. The
  notes and the index stay as they were, but the call throws a TypeError:
  \<^verbatim>\<open>note.remove()\<close> is reached with \<^verbatim>\<open>note\<close> being \<^verbatim>\<open>null\<close>.
\<close>

theorem deleteNote_absent_throws:
  assumes "getElementById s noteID = None"
  shows "deleteNote s noteID = Thrown TypeError s"
  using assms by (simp add: deleteNote_def)

theorem deleteNote_absent_throws_witness:
  "getElementById notepad_ab ''c'' = None
   \<and> deleteNote notepad_ab ''c'' = Thrown TypeError notepad_ab"
proof -
  have h: "getElementById notepad_ab ''c'' = None"
    by code_simp
  from h deleteNote_absent_throws [OF h] show ?thesis
    by simp
qed

text \<open>
  C4: moving a note to the position it has is not a no-op. In the notepad with the notes
  \<open>a\<close> and \<open>b\<close>, \<^verbatim>\<open>moveNote('a', 1, 1)\<close> returns normally and leaves the index as it
  was, but the element of \<open>a\<close> is now the last child of the notes container: the order of
  the notes in the document is \<open>b\<close>, \<open>a\<close>.
\<close>

theorem moveNote_same_position_reorders:
  "map elem_id (notesContainer notepad_ab) = [''a'', ''b'']
   \<and> notesContainerIndex notepad_ab = [(1, Some ''a''), (2, Some ''b'')]
   \<and> moveNote notepad_ab ''a'' 1 1 = Done (state_of (moveNote notepad_ab ''a'' 1 1))
   \<and> map elem_id (notesContainer (state_of (moveNote notepad_ab ''a'' 1 1))) = [''b'', ''a'']
   \<and> notesContainerIndex (state_of (moveNote notepad_ab ''a'' 1 1))
       = [(1, Some ''a''), (2, Some ''b'')]"
  by code_simp

text \<open>
  C2: a requested position below 1 is not clamped. In the notepad with the notes \<open>a\<close> and
  \<open>b\<close>, \<^verbatim>\<open>moveNote('b', 2, 0)\<close> writes the key 0 into the index, leaves position 1
  without an id and ends with a TypeError in \<^verbatim>\<open>#indexNotes\<close>; the moved note has no
  position between 1 and the size.
\<close>

theorem moveNote_below_one_not_clamped:
  "moveNote notepad_ab ''b'' 2 0 = Thrown TypeError (state_of (moveNote notepad_ab ''b'' 2 0))
   \<and> notesContainerIndex (state_of (moveNote notepad_ab ''b'' 2 0))
       = [(1, None), (2, Some ''a''), (0, Some ''b'')]
   \<and> map data_note_index (notesContainer (state_of (moveNote notepad_ab ''b'' 2 0)))
       = [AttrNum 1, AttrUndefined]"
  by code_simp

section \<open>Re-indexing and insertion\<close>






text \<open>What \<^verbatim>\<open>newNote\<close> does up to the re-indexing, when nothing throws before.\<close>

lemma newNote_indexNotes:
  assumes "note_accentColor p = Inr c" and "\<not> list_ex ascii_whitespace (note_id s p now)"
    and "note_id s p now \<noteq> []"
  shows "newNote s p now =
     indexNotes
       (s\<lparr>accentColors := (if c \<in> set (accentColors s) then accentColors s
                            else accentColors s @ [c]),
          notesContainer := notesContainer s @
            [\<lparr>elem_id = note_id s p now, note_title = note_title_of p,
              note_text = note_content p, accent_color = c, data_note_index = NoAttr,
              input_value = None, input_default = None,
              input_max = int (length (notesContainerIndex s) + 1)\<rparr>],
          notesContainerIndex :=
            map_set (notesContainerIndex s) (int (length (notesContainerIndex s)) + 1)
              (Some (note_id s p now))\<rparr>)"
proof -
  define new where "new = \<lparr>elem_id = note_id s p now, note_title = note_title_of p,
      note_text = note_content p, accent_color = c, data_note_index = NoAttr,
      input_value = None, input_default = None,
      input_max = int (length (notesContainerIndex s) + 1)\<rparr>"
  define s2 where "s2 = s\<lparr>accentColors := (if c \<in> set (accentColors s) then accentColors s
                    else accentColors s @ [c]),
              notesContainer := notesContainer s @ [new]\<rparr>"
  have "note_id s p now \<in> elem_id ` set (notesContainer s2)"
    by (simp add: s2_def new_def)
  from getElementById_found[OF assms(3) this] obtain el
    where "getElementById s2 (note_id s p now) = Some el" by blast
  with assms(1,2) show ?thesis
    unfolding new_def[symmetric]
    by (simp add: newNote_def Let_def createNote_def s2_def new_def)
qed


section \<open>Serialising and loading a notepad\<close>







section \<open>The invariant of the notes index\<close>

subsection \<open>Structurally sound notepads\<close>











subsection \<open>Inserting a note\<close>















subsection \<open>Deleting a note\<close>



subsection \<open>Moving a note\<close>












subsection \<open>Sequences of calls\<close>











section \<open>Well-formed notes\<close>

text \<open>
  The constructor creates a notepad whose notes and accent colours are well-formed, and
  the methods of the model keep them so, whether they return or throw: the elements that
  the round trip of C5 is stated for are those of the notepads these methods produce.
  The one call left out is a \<^verbatim>\<open>newNote\<close> whose id is not a string and converts to the
  empty string (an empty array): it throws after it has added an element without id.
\<close>

lemma lower_char_idem: "lower_char (lower_char c) = lower_char c"
  by (simp add: lower_char_def Let_def)

lemma hex_digit_lower: "hex_digit c \<Longrightarrow> hex_digit (lower_char c)"
  by (auto simp: hex_digit_def lower_char_def Let_def)

lemma toLowerCase_wf:
  assumes "hexColorRegex_test c"
  shows "color_wf (toLowerCase c)"
proof -
  from assms obtain ds where c: "c = CHR ''#'' # ds" and l: "length ds = 6 \<or> length ds = 3"
    and h: "list_all hex_digit ds"
    by (auto simp: hexColorRegex_test_def split: list.splits)
  have hash: "lower_char CHR ''#'' = CHR ''#''"
    by (simp add: lower_char_def)
  from h have "list_all hex_digit (map lower_char ds)"
    by (simp add: list_all_iff hex_digit_lower)
  with c l hash have "hexColorRegex_test (toLowerCase c)"
    by (simp add: hexColorRegex_test_def toLowerCase_def)
  moreover have "toLowerCase (toLowerCase c) = toLowerCase c"
    by (simp add: toLowerCase_def lower_char_idem)
  ultimately show ?thesis
    by (simp add: color_wf_def)
qed

lemma note_accentColor_wf:
  assumes "note_accentColor p = Inr c"
  shows "color_wf c"
proof (cases "prop_truthy (np_accentColor p) \<and> hexColorRegex_test (prop_string (np_accentColor p))")
  case False
  with assms show ?thesis
    by (auto simp: note_accentColor_def color_wf_def)
next
  case True
  with assms obtain t where t: "np_accentColor p = Text t" "c = toLowerCase t"
    by (auto simp: note_accentColor_def split: property.splits)
  with True have "hexColorRegex_test t"
    by (simp add: prop_string_def)
  from toLowerCase_wf[OF this] t(2) show ?thesis
    by simp
qed

lemma note_wf_data:
  "note_wf e \<longleftrightarrow> fst (note_data e) \<noteq> [] \<and> \<not> list_ex ascii_whitespace (fst (note_data e))
     \<and> color_wf (snd (snd (snd (note_data e))))"
  by (simp add: note_wf_def note_data_def color_wf_def)

lemma notes_wf_transfer:
  assumes "notes_wf u" and "map note_data (notesContainer s') = map note_data (notesContainer u)"
    and "accentColors s' = accentColors u"
  shows "notes_wf s'"
proof -
  have "note_wf e'" if "e' \<in> set (notesContainer s')" for e'
  proof -
    from that have "note_data e' \<in> set (map note_data (notesContainer s'))"
      by simp
    then have "note_data e' \<in> set (map note_data (notesContainer u))"
      unfolding assms(2) .
    then obtain e where e: "e \<in> set (notesContainer u)" "note_data e = note_data e'"
      by auto
    from assms(1) e(1) have "note_wf e"
      by (simp add: notes_wf_def list_all_iff)
    with e(2) show ?thesis
      by (simp add: note_wf_data)
  qed
  with assms(1,3) show ?thesis
    by (simp add: notes_wf_def list_all_iff)
qed

lemma indexNotes_wf:
  assumes "notes_wf u"
  shows "notes_wf (state_of (indexNotes u))"
proof -
  note fr = indexNotes_loop_frame[of "map_keys (notesContainerIndex u)" u]
  from fr have "map note_data (notesContainer (state_of (indexNotes u))) = map note_data (notesContainer u)"
    and "accentColors (state_of (indexNotes u)) = accentColors u"
    unfolding indexNotes_def by blast+
  with assms show ?thesis
    by (rule notes_wf_transfer)
qed

lemma indexNotes_detached_wf:
  assumes "notes_wf u"
  shows "notes_wf (state_of (indexNotes_detached b u))"
  using assms by (simp add: indexNotes_detached_def notes_wf_def split: list.splits)

lemma note_id_empty: "note_id s p now = [] \<longleftrightarrow> np_id p = Other True []"
  by (cases "np_id p")
     (simp_all add: note_id_def prop_truthy_def prop_string_def generateID_def)

lemma newNote_wf:
  assumes "notes_wf s" and "np_id p \<noteq> Other True []"
  shows "notes_wf (state_of (newNote s p now))"
proof (cases "note_accentColor p")
  case (Inl e)
  with assms(1) show ?thesis
    by (simp add: newNote_def Let_def)
next
  case (Inr c)
  note cw = note_accentColor_wf[OF Inr]
  define s1 where "s1 = s\<lparr>accentColors := (if c \<in> set (accentColors s) then accentColors s
                    else accentColors s @ [c])\<rparr>"
  from assms(1) cw have w1: "notes_wf s1"
    by (simp add: notes_wf_def s1_def)
  show ?thesis
  proof (cases "list_ex ascii_whitespace (note_id s p now)")
    case True
    with Inr have "newNote s p now = Thrown InvalidCharacterError s1"
      by (simp add: newNote_def Let_def createNote_def s1_def)
    with w1 show ?thesis by simp
  next
    case False
    from assms(2) have id: "note_id s p now \<noteq> []"
      by (simp add: note_id_empty)
    define new where "new = \<lparr>elem_id = note_id s p now, note_title = note_title_of p,
        note_text = note_content p, accent_color = c, data_note_index = NoAttr,
        input_value = None, input_default = None,
        input_max = int (length (notesContainerIndex s) + 1)\<rparr>"
    define u where "u = s\<lparr>accentColors := (if c \<in> set (accentColors s) then accentColors s
                      else accentColors s @ [c]),
                notesContainer := notesContainer s @ [new],
                notesContainerIndex := map_set (notesContainerIndex s)
                   (int (length (notesContainerIndex s)) + 1) (Some (note_id s p now))\<rparr>"
    have nn: "newNote s p now = indexNotes u"
      unfolding u_def new_def by (rule newNote_indexNotes[OF Inr False id])
    from id False cw have "note_wf new"
      by (simp add: note_wf_def new_def color_wf_def)
    with assms(1) cw have "notes_wf u"
      by (simp add: notes_wf_def u_def)
    then show ?thesis
      unfolding nn by (rule indexNotes_wf)
  qed
qed

lemma list_all_remove_nth: "list_all P xs \<Longrightarrow> list_all P (remove_nth i xs)"
  by (auto simp: list_all_iff remove_nth_def dest: in_set_takeD in_set_dropD)

lemma list_all_insert_at: "list_all P xs \<Longrightarrow> P x \<Longrightarrow> list_all P (insert_at j x xs)"
  by (auto simp: list_all_iff insert_at_def dest: in_set_takeD in_set_dropD)

lemma list_all_update: "list_all P xs \<Longrightarrow> P x \<Longrightarrow> list_all P (xs[i := x])"
  by (auto simp: list_all_iff dest!: set_update_subset_insert[THEN subsetD])

lemma deleteNote_wf:
  assumes "notes_wf s"
  shows "notes_wf (state_of (deleteNote s noteID))"
proof (cases "getElementById s noteID")
  case None
  with assms show ?thesis
    by (simp add: deleteNote_def)
next
  case (Some el)
  define rebuilt where "rebuilt = fold (deleteNote_step (notesContainerIndex s) (index_attr_of s el))
          [1 .. int (length (notesContainerIndex s))] []"
  from assms have r: "notes_wf (s\<lparr>notesContainerIndex := rebuilt\<rparr>)"
    by (simp add: notes_wf_def)
  show ?thesis
  proof (cases el)
    case (Note i)
    define u where "u = s\<lparr>notesContainer := remove_nth i (notesContainer s),
        notesContainerIndex := rebuilt\<rparr>"
    have d: "deleteNote s noteID = indexNotes u"
      using Some Note by (simp add: deleteNote_def Let_def u_def rebuilt_def)
    from assms have "notes_wf u"
      by (simp add: notes_wf_def u_def list_all_remove_nth)
    then show ?thesis
      unfolding d by (rule indexNotes_wf)
  next
    case EntryPoint
    with Some have "deleteNote s noteID = indexNotes_detached True (s\<lparr>notesContainerIndex := rebuilt\<rparr>)"
      by (simp add: deleteNote_def Let_def rebuilt_def)
    with indexNotes_detached_wf[OF r] show ?thesis
      by simp
  next
    case NotepadElement
    with Some have "deleteNote s noteID = indexNotes_detached False (s\<lparr>notesContainerIndex := rebuilt\<rparr>)"
      by (simp add: deleteNote_def Let_def rebuilt_def)
    with indexNotes_detached_wf[OF r] show ?thesis
      by simp
  qed
qed

lemma note_wf_attr_update [simp]:
  "note_wf (e\<lparr>data_note_index := a\<rparr>) = note_wf e"
  "note_wf (e\<lparr>input_value := b\<rparr>) = note_wf e"
  "note_wf (e\<lparr>input_default := c\<rparr>) = note_wf e"
  "note_wf (e\<lparr>input_max := d\<rparr>) = note_wf e"
  by (simp_all add: note_wf_def)

lemma notes_wf_container:
  assumes "notes_wf s" and "list_all note_wf d"
  shows "notes_wf (s\<lparr>notesContainer := d\<rparr>)"
    and "notes_wf (state_of (indexNotes (s\<lparr>notesContainer := d, notesContainerIndex := m\<rparr>)))"
proof -
  from assms show "notes_wf (s\<lparr>notesContainer := d\<rparr>)"
    by (simp add: notes_wf_def)
  from assms have "notes_wf (s\<lparr>notesContainer := d, notesContainerIndex := m\<rparr>)"
    by (simp add: notes_wf_def)
  then show "notes_wf (state_of (indexNotes (s\<lparr>notesContainer := d, notesContainerIndex := m\<rparr>)))"
    by (rule indexNotes_wf)
qed

lemma notes_wf_outer:
  assumes "notes_wf s"
  shows "notes_wf (set_outer_index s el v)"
    and "notesContainer s \<noteq> [] \<Longrightarrow>
         notes_wf ((set_outer_index s el v)
                     \<lparr>notesContainer := (notesContainer s)
                        [0 := (notesContainer s ! 0)\<lparr>input_value := a, input_default := b\<rparr>]\<rparr>)"
proof -
  from assms show "notes_wf (set_outer_index s el v)"
    by (simp add: notes_wf_def)
  assume "notesContainer s \<noteq> []"
  then have "0 < length (notesContainer s)" by simp
  with assms have "note_wf (notesContainer s ! 0)"
    unfolding notes_wf_def list_all_length by blast
  with assms show "notes_wf ((set_outer_index s el v)
                     \<lparr>notesContainer := (notesContainer s)
                        [0 := (notesContainer s ! 0)\<lparr>input_value := a, input_default := b\<rparr>]\<rparr>)"
    by (simp add: notes_wf_def list_all_update)
qed

lemma moveNote_wf:
  assumes "notes_wf s"
  shows "notes_wf (state_of (moveNote s noteID oldIndex requested))"
proof (cases "getElementById s noteID")
  case None
  with assms show ?thesis
    by (simp add: moveNote_def Let_def)
next
  case (Some el)
  show ?thesis
  proof (cases "\<exists>i. el = Note i")
    case True
    then obtain i where el: "el = Note i" by blast
    let ?els = "notesContainer s"
    let ?others = "remove_nth i ?els"
    from getElementById_Note[OF Some[unfolded el]] have il: "i < length ?els"
      by simp
    with assms have ew: "note_wf (?els ! i)"
      by (simp add: notes_wf_def list_all_length)
    from assms have ow: "list_all note_wf ?others"
      by (simp add: notes_wf_def list_all_remove_nth)
    have ap: "list_all note_wf (?others @ [(?els ! i)\<lparr>data_note_index := AttrUndefined,
        input_value := Some n, input_default := Some n\<rparr>])" for n
      using ow ew by simp
    have ia: "list_all note_wf (insert_at q ((?els ! i)\<lparr>data_note_index := AttrUndefined,
        input_value := Some n, input_default := Some n\<rparr>) ?others)" for n q
      using ow ew by (simp add: list_all_insert_at)
    have ib: "list_all note_wf (insertBefore ?others ((?els ! i)\<lparr>data_note_index := AttrUndefined,
        input_value := Some n, input_default := Some n\<rparr>) child)" for n child
      using ap ia by (cases child) (simp_all add: insertBefore_def)
    note w = notes_wf_container[OF assms]
    show ?thesis
      unfolding moveNote_def Let_def using Some el
      by (simp add: w ow ew ap ia ib split: option.splits)
  next
    case False
    then have o: "el = EntryPoint \<or> el = NotepadElement"
      by (cases el) simp_all
    note w = notes_wf_outer[OF assms, where el = el and v = AttrUndefined]
    from o show ?thesis
      unfolding moveNote_def Let_def using Some w
      by (auto split: option.splits)
  qed
qed

lemma changeNoteAccentColor_wf:
  assumes "notes_wf s"
  shows "notes_wf (state_of (changeNoteAccentColor s noteID))"
proof (cases "getElementById s noteID")
  case None
  with assms show ?thesis
    by (simp add: changeNoteAccentColor_def)
next
  case (Some el)
  show ?thesis
  proof (cases "title_container_of s el")
    case None
    with Some assms show ?thesis
      by (simp add: changeNoteAccentColor_def)
  next
    case i: (Some i)
    let ?els = "notesContainer s"
    from assms have cw: "list_all color_wf (accentColors s)" and nw: "list_all note_wf ?els"
      by (simp_all add: notes_wf_def)
    have ca: "color_wf (color_at (accentColors s) k)" for k
      using cw by (simp add: color_at_def list_all_length color_wf_def)
    have il: "i < length ?els"
    proof (cases el)
      case (Note j)
      with i getElementById_Note[of s noteID j] Some show ?thesis
        by (simp add: title_container_of_def)
    next
      case EntryPoint
      with i show ?thesis
        by (simp add: title_container_of_def split: if_splits)
    next
      case NotepadElement
      with i show ?thesis
        by (simp add: title_container_of_def split: if_splits)
    qed
    with nw have ei: "note_wf (?els ! i)"
      by (simp add: list_all_length)
    have up: "list_all note_wf (?els[i := (?els ! i)\<lparr>accent_color := c\<rparr>])" if "color_wf c" for c
    proof -
      from ei that have "note_wf ((?els ! i)\<lparr>accent_color := c\<rparr>)"
        by (simp add: note_wf_def color_wf_def)
      with nw show ?thesis
        by (rule list_all_update)
    qed
    show ?thesis
      using Some i cw
      by (simp add: changeNoteAccentColor_def Let_def notes_wf_def up ca)
  qed
qed

lemma default_accentColors_wf: "list_all color_wf default_accentColors"
  by code_simp

lemma newNotepad_wf:
  assumes "notes_wf s"
  shows "notes_wf (state_of (newNotepad s addNewNote now_note now_id currentTime))"
proof -
  define cleared where "cleared = s\<lparr>notesContainer := [], notesContainerIndex := []\<rparr>"
  from assms have c: "notes_wf cleared"
    by (simp add: notes_wf_def cleared_def)
  define r where "r = (if addNewNote then newNote cleared no_properties now_note else Done cleared)"
  have "np_id no_properties \<noteq> Other True []"
    by (simp add: no_properties_def)
  from c newNote_wf[OF c this] have "notes_wf (state_of r)"
    by (simp add: r_def)
  then show ?thesis
    unfolding newNotepad_def Let_def cleared_def[symmetric] r_def[symmetric]
    by (cases r) (simp_all add: notes_wf_def default_accentColors_wf)
qed

lemma fill_notes_wf:
  "notes_wf s \<Longrightarrow> \<forall>p\<in>set ps. np_id p \<noteq> Other True [] \<Longrightarrow>
     notes_wf (state_of (fill_notes s ps clock k))"
proof (induction ps arbitrary: s k)
  case Nil
  then show ?case by simp
next
  case (Cons p ps)
  from Cons.prems(2) have p: "np_id p \<noteq> Other True []" and ps: "\<forall>p\<in>set ps. np_id p \<noteq> Other True []"
    by simp_all
  from newNote_wf[OF Cons.prems(1) p, of "clock k"] Cons.IH[OF _ ps]
  show ?case
    by (cases "newNote s p (clock k)") simp_all
qed

lemma fillNotepad_wf:
  assumes "notes_wf s" and "\<forall>p\<in>set (nr_notes r). np_id p \<noteq> Other True []"
  shows "notes_wf (state_of (fillNotepad s r clear now_id currentTime clock))"
proof -
  define r0 where "r0 = (if clear then newNotepad s False now_id now_id currentTime else Done s)"
  from assms newNotepad_wf[OF assms(1)] have w: "notes_wf (state_of r0)"
    by (simp add: r0_def)
  show ?thesis
  proof (cases r0)
    case (Done s')
    with w have "notes_wf (s'\<lparr>notepad_id := nr_id r, notepadCreated := nr_created r,
        notepadLastUpdate := nr_lastUpdate r, header := nr_title r\<rparr>)"
      by (simp add: notes_wf_def)
    from fill_notes_wf[OF this assms(2)] Done show ?thesis
      unfolding fillNotepad_def r0_def[symmetric] by simp
  next
    case (Thrown e s')
    with w show ?thesis
      unfolding fillNotepad_def r0_def[symmetric] by simp
  next
    case (Detached e s')
    with w show ?thesis
      unfolding fillNotepad_def r0_def[symmetric] by simp
  qed
qed

lemma constructor_wf:
  "notes_wf (state_of (Notepad_constructor entryPoint now_id currentTime now_note))"
  unfolding Notepad_constructor_def
  by (rule newNote_wf) (simp_all add: notes_wf_def default_accentColors_wf no_properties_def)

lemma apply_op_wf:
  assumes "notes_wf s" and "\<forall>p now. operation = NewNote p now \<longrightarrow> np_id p \<noteq> Other True []"
  shows "notes_wf (state_of (apply_op s operation))"
  using assms by (cases operation) (simp_all add: newNote_wf deleteNote_wf moveNote_wf)

end
